theory Spec2Isabelle
  imports Main "HOL-Library.Word"
begin

section \<open>The tile loop of layerConvDWBNRelu9\<close>

text \<open>
  The layer function of \<^verbatim>\<open>layerConvDWBNRelu9.c\<close> is one straight-line prologue followed by
  a \<^verbatim>\<open>for\<close> loop of eight iterations. Every core of the cluster runs the same function; what a
  core does is the sequence of calls it makes to the DMA, barrier and kernel primitives. The model
  below is that sequence (a list of events) together with the scheduler variables the loop
  mutates. C \<^verbatim>\<open>int\<close> variables are HOL integers (every index stays below 9 and every offset
  below 8193, see \<open>sched_at_closed\<close>); addresses are 32-bit words, where \<open>+\<close> wraps.
\<close>

subsection \<open>Values\<close>

type_synonym u32 = "32 word"

text \<open>The C operator \<^verbatim>\<open>!\<close> on an \<^verbatim>\<open>int\<close>.\<close>

definition lnot :: "int \<Rightarrow> int" where
  "lnot v = (if v = 0 then 1 else 0)"

text \<open>The thirteen words read from \<^verbatim>\<open>real_arg[0..12]\<close> (lines 30-43).\<close>

record layer_args =
  l3_x :: u32
  l3_y :: u32
  l3_W :: u32
  l2_x :: u32
  l2_x_2 :: u32
  l2_y :: u32
  l2_W :: u32
  l1_buffer :: u32
  hyperram :: u32
  out_mult_in :: u32
  inmul1 :: u32
  inmul2 :: u32
  out_shift_in :: u32

subsection \<open>Scheduler variables\<close>

text \<open>
  The double-buffering state and the tile loop indices (lines 84-91). The source names
  \<^verbatim>\<open>_i_nof_load\<close> etc. lose their leading underscore.
\<close>

record sched =
  db_state_x :: int
  db_state_W :: int
  db_state_y :: int
  i_nof_load :: int
  i_nif_load :: int
  i_h_load :: int
  i_w_load :: int
  i_nof_exec :: int
  i_nif_exec :: int
  i_h_exec :: int
  i_w_exec :: int

definition init_sched :: sched where
  "init_sched =
     \<lparr>db_state_x = 0, db_state_W = 0, db_state_y = 1,
      i_nof_load = 0, i_nif_load = 0, i_h_load = 0, i_w_load = 0,
      i_nof_exec = 0, i_nif_exec = 0, i_h_exec = 0, i_w_exec = 0\<rparr>"

text \<open>Lines 152-163: the load indices step through the loop nest nof, h, w.\<close>

definition advance_load :: "sched \<Rightarrow> sched" where
  "advance_load s =
     (let s1 = s\<lparr>i_w_load := i_w_load s + 1\<rparr> in
      if i_w_load s1 = 1 then
        (let s2 = s1\<lparr>i_w_load := 0, i_h_load := i_h_load s1 + 1\<rparr> in
         if i_h_load s2 = 1 then
           s2\<lparr>i_h_load := 0, i_nif_load := i_nif_load s2 + 1, i_nof_load := i_nof_load s2 + 1\<rparr>
         else s2)
      else s1)"

text \<open>
  Lines 167-176: the offsets of this iteration, and the update of the double-buffering state.
  Every offset is computed from the state as it is before the assignment that toggles it.
\<close>

record offsets =
  db_x :: int
  db_W :: int
  db_y :: int
  db_act :: int
  exec_db_x :: int
  exec_db_W :: int
  exec_db_act :: int

definition weights_changed :: "sched \<Rightarrow> bool" where
  "weights_changed s \<longleftrightarrow> i_nif_load s \<noteq> i_nif_exec s \<or> i_nof_load s \<noteq> i_nof_exec s"

definition db_offsets :: "sched \<Rightarrow> offsets" where
  "db_offsets s =
     \<lparr>db_x = (if lnot (db_state_x s) \<noteq> 0 then 8192 else 0),
      db_W = (if lnot (db_state_W s) \<noteq> 0 then 288 else 0),
      db_y = (if lnot (db_state_y s) \<noteq> 0 then 8192 else 0),
      db_act = (if lnot (db_state_W s) \<noteq> 0 then 128 else 0),
      exec_db_x = (if db_state_x s \<noteq> 0 then 8192 else 0),
      exec_db_W = (if db_state_W s \<noteq> 0 then 288 else 0),
      exec_db_act = (if db_state_W s \<noteq> 0 then 128 else 0)\<rparr>"

definition db_update :: "sched \<Rightarrow> offsets \<times> sched" where
  "db_update s =
     (let d = db_offsets s;
          s1 = s\<lparr>db_state_x := lnot (db_state_x s)\<rparr>;
          s2 = (if weights_changed s1 then s1\<lparr>db_state_W := lnot (db_state_W s1)\<rparr> else s1)
      in (d, s2))"

text \<open>Lines 329-332: the exec indices take the values of the load indices.\<close>

definition update_prev :: "sched \<Rightarrow> sched" where
  "update_prev s =
     s\<lparr>i_nof_exec := i_nof_load s, i_nif_exec := i_nif_load s,
       i_h_exec := i_h_load s, i_w_exec := i_w_load s\<rparr>"

subsection \<open>Events\<close>

text \<open>
  \<^verbatim>\<open>dory_get_tile_3d\<close> is defined outside this file. An external address is therefore either a
  plain word or the recorded call: the base, the three tile indices and the twelve remaining
  arguments in order.
\<close>

datatype ext_addr = Plain u32 | dory_get_tile_3d u32 int int int "int list"

datatype pi_cl_dma_dir = PI_CL_DMA_DIR_LOC2EXT | PI_CL_DMA_DIR_EXT2LOC

text \<open>The fields of \<^verbatim>\<open>pi_cl_dma_copy_t\<close> that the function assigns.\<close>

record pi_cl_dma_copy_t =
  copy_dir :: pi_cl_dma_dir
  copy_merge :: int
  copy_size :: int
  copy_id :: int
  copy_ext :: u32
  copy_loc :: u32

datatype copy_var = copy_k | copy_lambda

text \<open>The arguments of the two 3D transfer routines, without the event handle.\<close>

record memcpy_3d =
  m_ext :: ext_addr
  m_loc :: u32
  m_size :: int
  m_stride_1 :: int
  m_stride_0 :: int
  m_length_2 :: int
  m_length_0 :: int
  m_dir :: int

text \<open>
  The arguments of \<^verbatim>\<open>pulp_nn_depthwise_generic\<close> that are variables of the function, named
  after them. The literal arguments (3, 3, 1, 1, NULL, 0, 1, 1) and the event handle are the same
  in every call.
\<close>

record kernel_args =
  k_x :: u32
  k_x_tile_size_w_exec :: int
  k_x_tile_size_h_exec :: int
  k_x_tile_size_nif_exec :: int
  k_W :: u32
  k_y_tile_size_nof :: int
  k_p_t :: int
  k_p_b :: int
  k_p_l :: int
  k_p_r :: int
  k_out_shift :: "16 word"
  k_out_mult :: "16 word"
  k_y :: u32
  k_y_tile_size_w :: int
  k_y_tile_size_h :: int
  k_k :: u32
  k_lambda :: u32
  k_im2col :: u32
  k_pwt_buffer :: u32

datatype event =
    pi_cl_team_barrier
  | pi_cl_dma_memcpy copy_var pi_cl_dma_copy_t
  | pi_cl_dma_wait copy_var
  | dory_dma_memcpy_3d_custom_hwc_to_chw memcpy_3d
  | dory_dma_memcpy_3d_custom_blocking memcpy_3d
  | pulp_nn_depthwise_generic kernel_args

subsection \<open>The prologue (lines 101-146)\<close>

definition prologue :: "nat \<Rightarrow> layer_args \<Rightarrow> event list" where
  "prologue pi_core_id a =
     (if pi_core_id = 0 then
        [pi_cl_dma_memcpy copy_k
           \<lparr>copy_dir = PI_CL_DMA_DIR_EXT2LOC, copy_merge = 0, copy_size = 128, copy_id = 0,
            copy_ext = l2_W a + 2304, copy_loc = l1_buffer a + 33356\<rparr>,
         pi_cl_dma_memcpy copy_lambda
           \<lparr>copy_dir = PI_CL_DMA_DIR_EXT2LOC, copy_merge = 0, copy_size = 128, copy_id = 0,
            copy_ext = l2_W a + 3328, copy_loc = l1_buffer a + 33616\<rparr>,
         pi_cl_dma_wait copy_k,
         pi_cl_dma_wait copy_lambda]
      else []) @
     [pi_cl_team_barrier,
      dory_dma_memcpy_3d_custom_hwc_to_chw
        \<lparr>m_ext = Plain (l2_x a), m_loc = (l1_buffer a + 0) + 0, m_size = 8192,
         m_stride_1 = 4096, m_stride_0 = 256, m_length_2 = 16, m_length_0 = 32, m_dir = 1\<rparr>,
      dory_dma_memcpy_3d_custom_blocking
        \<lparr>m_ext = Plain (l2_W a), m_loc = (l1_buffer a + 32776) + 0, m_size = 288,
         m_stride_1 = 9, m_stride_0 = 1, m_length_2 = 32, m_length_0 = 1, m_dir = 1\<rparr>,
      pi_cl_team_barrier]"

subsection \<open>One iteration (lines 152-333)\<close>

text \<open>
  Lines 179-244: the transfers for the next tile. The tile sizes are \<^verbatim>\<open>unsigned short\<close>
  variables, hence the reduction modulo \<open>65536\<close> of the two products. The assignments to
  \<^verbatim>\<open>y_tile_size_h\<close> and \<^verbatim>\<open>y_tile_size_w\<close> of lines 194-195 are overwritten at lines
  257-258 before any use and leave no trace here.
\<close>

definition prefetch :: "nat \<Rightarrow> layer_args \<Rightarrow> int \<Rightarrow> sched \<Rightarrow> offsets \<Rightarrow> event list" where
  "prefetch pi_core_id a iter s d =
     (if iter < 8 * 1 * 1 - 1 then
        (let x_tile_size_nif = (if i_nif_load s + 1 = 8 then 32 else 32 :: int);
             x_tile_size_h = (if i_h_load s + 1 = 1 then 16 else 16 :: int);
             x_tile_size_w = (if i_w_load s + 1 = 1 then 16 else 16 :: int);
             x_tile_size_byte =
               (x_tile_size_nif * x_tile_size_h * x_tile_size_w * 8 div 8) mod 65536;
             x_length_nif_byte = (if i_nif_load s + 1 = 8 then 32 else 32 :: int);
             pad_offset_h = (if i_h_load s > 0 then 1 else 0 :: int);
             pad_offset_w = (if i_w_load s > 0 then 1 else 0 :: int);
             W_tile_size_nof = (if i_nof_load s + 1 = 8 then 32 else 32 :: int);
             W_tile_size_nif = (if i_nif_load s + 1 = 8 then 1 else 1 :: int);
             W_tile_size_byte = (W_tile_size_nof * W_tile_size_nif * 3 * 3) mod 65536;
             W_length_nif_byte = (if i_nif_load s + 1 = 8 then 1 else 1 :: int)
         in
           [dory_dma_memcpy_3d_custom_hwc_to_chw
              \<lparr>m_ext = dory_get_tile_3d (l2_x a) (i_h_load s) (i_w_load s) (i_nif_load s)
                  [16, 16, 32, 16, 256, 2, 2, 0, pad_offset_h, pad_offset_w, 0, 8],
               m_loc = (l1_buffer a + 0) + word_of_int (db_x d),
               m_size = x_tile_size_byte,
               m_stride_1 = 4096, m_stride_0 = 256,
               m_length_2 = x_tile_size_h, m_length_0 = x_length_nif_byte, m_dir = 1\<rparr>] @
           (if weights_changed s then
              [dory_dma_memcpy_3d_custom_blocking
                 \<lparr>m_ext = dory_get_tile_3d (l2_W a) (i_nof_load s) 0 0
                     [32, 3 * 3, 1, 3 * 3, 1, 0, 0, 0, 0, 0, 0, 8],
                  m_loc = (l1_buffer a + 32776) + word_of_int (db_W d),
                  m_size = W_tile_size_byte,
                  m_stride_1 = 9, m_stride_0 = 1,
                  m_length_2 = W_tile_size_nof, m_length_0 = W_length_nif_byte, m_dir = 1\<rparr>] @
              (if pi_core_id = 0 then
                 [pi_cl_dma_memcpy copy_k
                    \<lparr>copy_dir = PI_CL_DMA_DIR_EXT2LOC, copy_merge = 0,
                     copy_size = W_tile_size_nof * 4, copy_id = 0,
                     copy_ext = l2_W a + 2304 + word_of_int (128 * i_nof_load s),
                     copy_loc = l1_buffer a + 33356 + word_of_int (db_act d)\<rparr>,
                  pi_cl_dma_memcpy copy_lambda
                    \<lparr>copy_dir = PI_CL_DMA_DIR_EXT2LOC, copy_merge = 0,
                     copy_size = W_tile_size_nof * 4, copy_id = 0,
                     copy_ext = l2_W a + 3328 + word_of_int (128 * i_nof_load s),
                     copy_loc = l1_buffer a + 33616 + word_of_int (db_act d)\<rparr>]
               else [])
            else []))
      else [])"

text \<open>Lines 261-272: the four padding flags of the tile being computed.\<close>

definition p_t :: "sched \<Rightarrow> int" where
  "p_t s = (if i_h_exec s = 0 then 1 else 0)"

definition p_l :: "sched \<Rightarrow> int" where
  "p_l s = (if i_w_exec s = 0 then 1 else 0)"

definition p_b :: "sched \<Rightarrow> int" where
  "p_b s = (if i_h_exec s = 1 - 1 then 1 else 0)"

definition p_r :: "sched \<Rightarrow> int" where
  "p_r s = (if i_w_exec s = 1 - 1 then 1 else 0)"

text \<open>Lines 93-97 and 247-305: the pointers and sizes of the kernel call.\<close>

definition kernel_call :: "layer_args \<Rightarrow> sched \<Rightarrow> offsets \<Rightarrow> kernel_args" where
  "kernel_call a s d =
     (let im2col = l1_buffer a + 33896;
          pwt_buffer = im2col + 456
      in
        \<lparr>k_x = l1_buffer a + 0 + word_of_int (exec_db_x d),
         k_x_tile_size_w_exec = (if i_w_exec s + 1 = 1 then 16 else 16),
         k_x_tile_size_h_exec = (if i_h_exec s + 1 = 1 then 16 else 16),
         k_x_tile_size_nif_exec = (if i_nif_exec s + 1 = 8 then 32 else 32),
         k_W = l1_buffer a + 32776 + word_of_int (exec_db_W d),
         k_y_tile_size_nof = (if i_nof_exec s + 1 = 8 then 32 else 32),
         k_p_t = p_t s, k_p_b = p_b s, k_p_l = p_l s, k_p_r = p_r s,
         k_out_shift = ucast (out_shift_in a),
         k_out_mult = ucast (out_mult_in a),
         k_y = l1_buffer a + 16388 + word_of_int (db_y d),
         k_y_tile_size_w = (if i_w_exec s + 1 = 1 then 16 else 16),
         k_y_tile_size_h = (if i_h_exec s + 1 = 1 then 16 else 16),
         k_k = l1_buffer a + 33356 + word_of_int (exec_db_act d),
         k_lambda = l1_buffer a + 33616 + word_of_int (exec_db_act d),
         k_im2col = im2col,
         k_pwt_buffer = pwt_buffer\<rparr>)"

definition compute :: "layer_args \<Rightarrow> sched \<Rightarrow> offsets \<Rightarrow> event list" where
  "compute a s d =
     [pi_cl_team_barrier, pulp_nn_depthwise_generic (kernel_call a s d), pi_cl_team_barrier]"

text \<open>Lines 309-316: the wait for the two requantization copies.\<close>

definition wait_copies :: "nat \<Rightarrow> int \<Rightarrow> sched \<Rightarrow> event list" where
  "wait_copies pi_core_id iter s =
     (if iter < 8 * 1 * 1 - 1 then
        (if pi_core_id = 0 \<and> weights_changed s
         then [pi_cl_dma_wait copy_k, pi_cl_dma_wait copy_lambda] else [])
      else [])"

text \<open>Lines 317-327: the output tile goes back to L2.\<close>

definition writeback :: "layer_args \<Rightarrow> sched \<Rightarrow> offsets \<Rightarrow> event list" where
  "writeback a s d =
     (let y_tile_size_nof = (if i_nof_exec s + 1 = 8 then 32 else 32 :: int);
          y_tile_size_h = (if i_h_exec s + 1 = 1 then 16 else 16 :: int);
          y_tile_size_w = (if i_w_exec s + 1 = 1 then 16 else 16 :: int);
          y_tile_size_byte = y_tile_size_nof * y_tile_size_h * y_tile_size_w * 8 div 8;
          y_length_nof_byte = (if i_nof_exec s + 1 = 8 then 32 else 32 :: int)
      in
        [dory_dma_memcpy_3d_custom_blocking
           \<lparr>m_ext = dory_get_tile_3d (l2_y a) (i_h_exec s) (i_w_exec s) (i_nof_exec s)
               [16, 16, 32, 16, 256, 0, 0, 0, 0, 0, 0, 8],
            m_loc = (l1_buffer a + 16388) + word_of_int (db_y d),
            m_size = y_tile_size_byte,
            m_stride_1 = 4096, m_stride_0 = 256,
            m_length_2 = y_tile_size_h, m_length_0 = y_length_nof_byte, m_dir = 0\<rparr>])"

text \<open>The body of the loop: the events of one iteration and the state it leaves.\<close>

definition tile_iter :: "nat \<Rightarrow> layer_args \<Rightarrow> int \<Rightarrow> sched \<Rightarrow> event list \<times> sched" where
  "tile_iter pi_core_id a iter s =
     (let s1 = advance_load s;
          (d, s2) = db_update s1
      in (prefetch pi_core_id a iter s2 d @ compute a s2 d @ wait_copies pi_core_id iter s2 @
          writeback a s2 d @ [pi_cl_team_barrier],
          update_prev s2))"

subsection \<open>The loop and the layer\<close>

text \<open>
  \<^verbatim>\<open>for(iter=0; iter<8*1*1; iter++)\<close>: the events of each iteration in turn, and the final
  state.
\<close>

function tile_loop :: "nat \<Rightarrow> layer_args \<Rightarrow> int \<Rightarrow> sched \<Rightarrow> event list list \<times> sched" where
  "tile_loop pi_core_id a iter s =
     (if iter < 8 * 1 * 1 then
        (let (evs, s') = tile_iter pi_core_id a iter s;
             (rest, sf) = tile_loop pi_core_id a (iter + 1) s'
         in (evs # rest, sf))
      else ([], s))"
  by pat_completeness auto
termination
  by (relation "measure (\<lambda>(c, a, iter, s). nat (8 - iter))") auto

definition layerConvDWBNRelu9 :: "nat \<Rightarrow> layer_args \<Rightarrow> event list" where
  "layerConvDWBNRelu9 pi_core_id a =
     prologue pi_core_id a @ concat (fst (tile_loop pi_core_id a 0 init_sched))"

subsection \<open>The state at the head of each iteration\<close>

text \<open>
  What one iteration does to the scheduler variables, and the state in which iteration \<open>n\<close>
  starts. \<open>load_at n\<close> is the state after lines 152-176 of iteration \<open>n\<close>, the one the
  transfers and the kernel call of that iteration read; \<open>offsets_at n\<close> are its offsets.
\<close>

definition next_sched :: "sched \<Rightarrow> sched" where
  "next_sched s = update_prev (snd (db_update (advance_load s)))"

definition sched_at :: "nat \<Rightarrow> sched" where
  "sched_at n = (next_sched ^^ n) init_sched"

definition load_at :: "nat \<Rightarrow> sched" where
  "load_at n = snd (db_update (advance_load (sched_at n)))"

definition offsets_at :: "nat \<Rightarrow> offsets" where
  "offsets_at n = fst (db_update (advance_load (sched_at n)))"

definition iter_events :: "nat \<Rightarrow> layer_args \<Rightarrow> nat \<Rightarrow> event list" where
  "iter_events pi_core_id a n = fst (tile_iter pi_core_id a (int n) (sched_at n))"

subsection \<open>Reading a trace\<close>

text \<open>
  The calls of one kind in a list of events. The weight transfer and the output write-back use
  the same routine; they differ in the direction argument (1 into L1, 0 out of it).
\<close>

fun hwc_to_chw_of :: "event \<Rightarrow> memcpy_3d list" where
  "hwc_to_chw_of (dory_dma_memcpy_3d_custom_hwc_to_chw m) = [m]"
| "hwc_to_chw_of _ = []"

fun blocking_of :: "int \<Rightarrow> event \<Rightarrow> memcpy_3d list" where
  "blocking_of d (dory_dma_memcpy_3d_custom_blocking m) = (if m_dir m = d then [m] else [])"
| "blocking_of d _ = []"

fun copy_of :: "copy_var \<Rightarrow> event \<Rightarrow> pi_cl_dma_copy_t list" where
  "copy_of v (pi_cl_dma_memcpy v' c) = (if v' = v then [c] else [])"
| "copy_of v _ = []"

fun kernel_of :: "event \<Rightarrow> kernel_args list" where
  "kernel_of (pulp_nn_depthwise_generic k) = [k]"
| "kernel_of _ = []"

fun is_kernel :: "event \<Rightarrow> bool" where
  "is_kernel (pulp_nn_depthwise_generic k) = True"
| "is_kernel _ = False"

definition input_transfers :: "event list \<Rightarrow> memcpy_3d list" where
  "input_transfers evs = concat (map hwc_to_chw_of evs)"

definition weight_transfers :: "event list \<Rightarrow> memcpy_3d list" where
  "weight_transfers evs = concat (map (blocking_of 1) evs)"

definition output_writebacks :: "event list \<Rightarrow> memcpy_3d list" where
  "output_writebacks evs = concat (map (blocking_of 0) evs)"

definition requant_copies :: "copy_var \<Rightarrow> event list \<Rightarrow> pi_cl_dma_copy_t list" where
  "requant_copies v evs = concat (map (copy_of v) evs)"

definition kernel_calls :: "event list \<Rightarrow> kernel_args list" where
  "kernel_calls evs = concat (map kernel_of evs)"

text \<open>The events before the first kernel call of a trace, and those after it.\<close>

definition before_kernel :: "event list \<Rightarrow> event list" where
  "before_kernel evs = takeWhile (\<lambda>e. \<not> is_kernel e) evs"

definition after_kernel :: "event list \<Rightarrow> event list" where
  "after_kernel evs = tl (dropWhile (\<lambda>e. \<not> is_kernel e) evs)"

text \<open>The tile coordinate (width, height, channel block) being loaded and being computed.\<close>

definition load_coord :: "sched \<Rightarrow> int \<times> int \<times> int" where
  "load_coord s = (i_w_load s, i_h_load s, i_nof_load s)"

definition exec_coord :: "sched \<Rightarrow> int \<times> int \<times> int" where
  "exec_coord s = (i_w_exec s, i_h_exec s, i_nof_exec s)"

text \<open>The input and output channel-block indices agree, for the load and the exec tile.\<close>

definition chan_inv :: "sched \<Rightarrow> bool" where
  "chan_inv s \<longleftrightarrow> i_nif_load s = i_nof_load s \<and> i_nif_exec s = i_nof_exec s"

subsection \<open>The regions of the L1 buffer\<close>

text \<open>
  The regions as byte offsets from \<^verbatim>\<open>l1_buffer\<close>, start and (exclusive) end. The output
  region holds two slots of 8192 bytes from 16388; the last workspace has no stated end.
\<close>

datatype role = Input | Output | Weight | Mult | Shift | Im2col | Pwt

fun region :: "role \<Rightarrow> nat \<times> nat option" where
  "region Input = (0, Some 16384)"
| "region Output = (16388, Some 32772)"
| "region Weight = (32776, Some 33352)"
| "region Mult = (33356, Some 33612)"
| "region Shift = (33616, Some 33872)"
| "region Im2col = (33896, Some 34352)"
| "region Pwt = (34352, None)"

definition below :: "nat \<Rightarrow> nat option \<Rightarrow> bool" where
  "below n hi = (case hi of None \<Rightarrow> True | Some h \<Rightarrow> n \<le> h)"

definition within :: "role \<Rightarrow> nat \<Rightarrow> nat \<Rightarrow> bool" where
  "within r off len \<longleftrightarrow> fst (region r) \<le> off \<and> below (off + len) (snd (region r))"

definition local_off :: "layer_args \<Rightarrow> u32 \<Rightarrow> nat" where
  "local_off a p = unat (p - l1_buffer a)"

text \<open>
  The L1 byte ranges an event names, each with the role it serves, as (role, offset, length):
  the local side of a transfer with its size argument, and each pointer of the kernel call with
  the extent of the tile that the size arguments of the same call describe (one byte per
  activation and weight, four per multiplier and shift).
\<close>

fun local_ranges :: "layer_args \<Rightarrow> event \<Rightarrow> (role \<times> nat \<times> nat) list" where
  "local_ranges a pi_cl_team_barrier = []"
| "local_ranges a (pi_cl_dma_wait v) = []"
| "local_ranges a (pi_cl_dma_memcpy v c) =
     [(case v of copy_k \<Rightarrow> Mult | copy_lambda \<Rightarrow> Shift,
       local_off a (copy_loc c), nat (copy_size c))]"
| "local_ranges a (dory_dma_memcpy_3d_custom_hwc_to_chw m) =
     [(Input, local_off a (m_loc m), nat (m_size m))]"
| "local_ranges a (dory_dma_memcpy_3d_custom_blocking m) =
     [(if m_dir m = 1 then Weight else Output, local_off a (m_loc m), nat (m_size m))]"
| "local_ranges a (pulp_nn_depthwise_generic k) =
     [(Input, local_off a (k_x k),
         nat (k_x_tile_size_w_exec k * k_x_tile_size_h_exec k * k_x_tile_size_nif_exec k)),
      (Weight, local_off a (k_W k), nat (k_y_tile_size_nof k * 3 * 3)),
      (Output, local_off a (k_y k),
         nat (k_y_tile_size_w k * k_y_tile_size_h k * k_y_tile_size_nof k)),
      (Mult, local_off a (k_k k), nat (4 * k_y_tile_size_nof k)),
      (Shift, local_off a (k_lambda k), nat (4 * k_y_tile_size_nof k)),
      (Im2col, local_off a (k_im2col k), 456),
      (Pwt, local_off a (k_pwt_buffer k), 0)]"

definition ranges_ok :: "layer_args \<Rightarrow> event \<Rightarrow> bool" where
  "ranges_ok a e = list_all (\<lambda>(r, off, len). within r off len) (local_ranges a e)"

subsection \<open>A concrete invocation\<close>

text \<open>An argument block with the L1 buffer at \<open>0x10000004\<close>, used to run the model.\<close>

definition example_args :: layer_args where
  "example_args =
     \<lparr>l3_x = 0, l3_y = 0, l3_W = 0, l2_x = 0x1C010000, l2_x_2 = 0, l2_y = 0x1C020000,
      l2_W = 0x1C030000, l1_buffer = 0x10000004, hyperram = 0, out_mult_in = 1, inmul1 = 0,
      inmul2 = 0, out_shift_in = 22\<rparr>"

section \<open>The loop unrolled\<close>

lemma tile_iter_snd: "snd (tile_iter c a iter s) = next_sched s"
  by (simp add: tile_iter_def next_sched_def Let_def split: prod.splits)

lemma tile_loop_from:
  "m + k = 8 \<Longrightarrow>
   tile_loop c a (int k) s =
     (map (\<lambda>j. fst (tile_iter c a (int (k + j)) ((next_sched ^^ j) s))) [0..<m],
      (next_sched ^^ m) s)"
proof (induction m arbitrary: k s)
  case 0
  then show ?case by simp
next
  case (Suc m)
  from Suc.prems have k: "int k < 8" and mk: "m + Suc k = 8" by simp_all
  have step: "tile_loop c a (int k) s =
      (fst (tile_iter c a (int k) s) # fst (tile_loop c a (int (Suc k)) (next_sched s)),
       snd (tile_loop c a (int (Suc k)) (next_sched s)))"
    using k tile_iter_snd [of c a "int k" s]
    by (subst tile_loop.simps) (simp add: split_beta Let_def add.commute)
  show ?case
    unfolding step Suc.IH [OF mk]
    by (simp add: map_upt_Suc funpow_swap1 ac_simps del: upt_Suc)
qed

lemma tile_loop_events:
  "fst (tile_loop c a 0 init_sched) = map (iter_events c a) [0..<8]"
  using tile_loop_from [of 8 0 c a init_sched]
  by (simp add: iter_events_def sched_at_def del: upt_Suc funpow.simps)

lemma layer_events:
  "layerConvDWBNRelu9 c a = prologue c a @ concat (map (iter_events c a) [0..<8])"
  by (simp only: layerConvDWBNRelu9_def tile_loop_events)

lemma sched_at_Suc: "sched_at (Suc n) = next_sched (sched_at n)"
  by (simp add: sched_at_def)

text \<open>The scheduler variables in closed form: no index exceeds the iteration number.\<close>

lemma sched_at_closed:
  "sched_at n =
     \<lparr>db_state_x = (if even n then 0 else 1), db_state_W = (if even n then 0 else 1),
      db_state_y = 1,
      i_nof_load = int n, i_nif_load = int n, i_h_load = 0, i_w_load = 0,
      i_nof_exec = int n, i_nif_exec = int n, i_h_exec = 0, i_w_exec = 0\<rparr>"
proof (induction n)
  case 0
  show ?case by (simp add: sched_at_def init_sched_def)
next
  case (Suc n)
  show ?case
    unfolding sched_at_Suc Suc.IH
    by (simp add: next_sched_def advance_load_def db_update_def update_prev_def
        weights_changed_def lnot_def Let_def)
qed

lemma load_at_closed:
  "load_at n =
     \<lparr>db_state_x = (if even n then 1 else 0), db_state_W = (if even n then 1 else 0),
      db_state_y = 1,
      i_nof_load = int n + 1, i_nif_load = int n + 1, i_h_load = 0, i_w_load = 0,
      i_nof_exec = int n, i_nif_exec = int n, i_h_exec = 0, i_w_exec = 0\<rparr>"
  unfolding load_at_def sched_at_closed
  by (simp add: advance_load_def db_update_def weights_changed_def lnot_def Let_def)

lemma offsets_at_closed:
  "offsets_at n =
     \<lparr>db_x = (if even n then 8192 else 0), db_W = (if even n then 288 else 0), db_y = 0,
      db_act = (if even n then 128 else 0),
      exec_db_x = (if even n then 0 else 8192), exec_db_W = (if even n then 0 else 288),
      exec_db_act = (if even n then 0 else 128)\<rparr>"
  unfolding offsets_at_def sched_at_closed
  by (simp add: advance_load_def db_update_def db_offsets_def lnot_def Let_def)

lemma iter_events_parts:
  "iter_events c a n =
     prefetch c a (int n) (load_at n) (offsets_at n) @ compute a (load_at n) (offsets_at n) @
     wait_copies c (int n) (load_at n) @ writeback a (load_at n) (offsets_at n) @
     [pi_cl_team_barrier]"
  by (simp add: iter_events_def tile_iter_def load_at_def offsets_at_def Let_def split_beta)

section \<open>What each part of an iteration contributes to the trace\<close>

lemma obs_Nil [simp]:
  "input_transfers [] = []" "weight_transfers [] = []" "output_writebacks [] = []"
  "requant_copies v [] = []" "kernel_calls [] = []"
  by (simp_all add: input_transfers_def weight_transfers_def output_writebacks_def
      requant_copies_def kernel_calls_def)

lemma obs_Cons [simp]:
  "input_transfers (e # es) = hwc_to_chw_of e @ input_transfers es"
  "weight_transfers (e # es) = blocking_of 1 e @ weight_transfers es"
  "output_writebacks (e # es) = blocking_of 0 e @ output_writebacks es"
  "requant_copies v (e # es) = copy_of v e @ requant_copies v es"
  "kernel_calls (e # es) = kernel_of e @ kernel_calls es"
  by (simp_all add: input_transfers_def weight_transfers_def output_writebacks_def
      requant_copies_def kernel_calls_def)

lemma obs_append [simp]:
  "input_transfers (es @ fs) = input_transfers es @ input_transfers fs"
  "weight_transfers (es @ fs) = weight_transfers es @ weight_transfers fs"
  "output_writebacks (es @ fs) = output_writebacks es @ output_writebacks fs"
  "requant_copies v (es @ fs) = requant_copies v es @ requant_copies v fs"
  "kernel_calls (es @ fs) = kernel_calls es @ kernel_calls fs"
  by (simp_all add: input_transfers_def weight_transfers_def output_writebacks_def
      requant_copies_def kernel_calls_def)

lemma tile_iter_parts:
  "fst (tile_iter c a iter s) =
     prefetch c a iter (snd (db_update (advance_load s))) (db_offsets (advance_load s)) @
     compute a (snd (db_update (advance_load s))) (db_offsets (advance_load s)) @
     wait_copies c iter (snd (db_update (advance_load s))) @
     writeback a (snd (db_update (advance_load s))) (db_offsets (advance_load s)) @
     [pi_cl_team_barrier]"
  by (simp add: tile_iter_def db_update_def Let_def)

lemma db_update_indices [simp]:
  "i_nof_load (snd (db_update s)) = i_nof_load s"
  "i_nif_load (snd (db_update s)) = i_nif_load s"
  "i_h_load (snd (db_update s)) = i_h_load s"
  "i_w_load (snd (db_update s)) = i_w_load s"
  "i_nof_exec (snd (db_update s)) = i_nof_exec s"
  "i_nif_exec (snd (db_update s)) = i_nif_exec s"
  "i_h_exec (snd (db_update s)) = i_h_exec s"
  "i_w_exec (snd (db_update s)) = i_w_exec s"
  "db_state_y (snd (db_update s)) = db_state_y s"
  "db_state_x (snd (db_update s)) = lnot (db_state_x s)"
  by (simp_all add: db_update_def Let_def)

lemma weights_changed_db_update [simp]:
  "weights_changed (snd (db_update s)) = weights_changed s"
  by (simp add: weights_changed_def)

lemma advance_load_exec [simp]:
  "i_nof_exec (advance_load s) = i_nof_exec s"
  "i_nif_exec (advance_load s) = i_nif_exec s"
  "i_h_exec (advance_load s) = i_h_exec s"
  "i_w_exec (advance_load s) = i_w_exec s"
  "db_state_x (advance_load s) = db_state_x s"
  "db_state_W (advance_load s) = db_state_W s"
  "db_state_y (advance_load s) = db_state_y s"
  by (simp_all add: advance_load_def Let_def)

lemma prefetch_obs:
  "input_transfers (prefetch c a iter s d) =
     (if iter < 7 then
        [\<lparr>m_ext = dory_get_tile_3d (l2_x a) (i_h_load s) (i_w_load s) (i_nif_load s)
            [16, 16, 32, 16, 256, 2, 2, 0, if i_h_load s > 0 then 1 else 0,
             if i_w_load s > 0 then 1 else 0, 0, 8],
          m_loc = l1_buffer a + word_of_int (db_x d),
          m_size = 8192, m_stride_1 = 4096, m_stride_0 = 256, m_length_2 = 16, m_length_0 = 32,
          m_dir = 1\<rparr>]
      else [])"
  "weight_transfers (prefetch c a iter s d) =
     (if iter < 7 \<and> weights_changed s then
        [\<lparr>m_ext = dory_get_tile_3d (l2_W a) (i_nof_load s) 0 0
            [32, 9, 1, 9, 1, 0, 0, 0, 0, 0, 0, 8],
          m_loc = l1_buffer a + 32776 + word_of_int (db_W d),
          m_size = 288, m_stride_1 = 9, m_stride_0 = 1, m_length_2 = 32, m_length_0 = 1,
          m_dir = 1\<rparr>]
      else [])"
  "output_writebacks (prefetch c a iter s d) = []"
  "kernel_calls (prefetch c a iter s d) = []"
  by (simp_all add: prefetch_def Let_def)

lemma prefetch_copies:
  "requant_copies v (prefetch c a iter s d) =
     (if iter < 7 \<and> weights_changed s \<and> c = 0 then
        [\<lparr>copy_dir = PI_CL_DMA_DIR_EXT2LOC, copy_merge = 0, copy_size = 128, copy_id = 0,
          copy_ext = l2_W a + (case v of copy_k \<Rightarrow> 2304 | copy_lambda \<Rightarrow> 3328) +
            word_of_int (128 * i_nof_load s),
          copy_loc = l1_buffer a + (case v of copy_k \<Rightarrow> 33356 | copy_lambda \<Rightarrow> 33616) +
            word_of_int (db_act d)\<rparr>]
      else [])"
  by (cases v) (simp_all add: prefetch_def Let_def)

lemma compute_obs:
  "input_transfers (compute a s d) = []"
  "weight_transfers (compute a s d) = []"
  "output_writebacks (compute a s d) = []"
  "requant_copies v (compute a s d) = []"
  "kernel_calls (compute a s d) = [kernel_call a s d]"
  by (simp_all add: compute_def)

lemma wait_copies_obs:
  "input_transfers (wait_copies c iter s) = []"
  "weight_transfers (wait_copies c iter s) = []"
  "output_writebacks (wait_copies c iter s) = []"
  "requant_copies v (wait_copies c iter s) = []"
  "kernel_calls (wait_copies c iter s) = []"
  by (simp_all add: wait_copies_def)

lemma writeback_obs:
  "input_transfers (writeback a s d) = []"
  "weight_transfers (writeback a s d) = []"
  "output_writebacks (writeback a s d) =
     [\<lparr>m_ext = dory_get_tile_3d (l2_y a) (i_h_exec s) (i_w_exec s) (i_nof_exec s)
            [16, 16, 32, 16, 256, 0, 0, 0, 0, 0, 0, 8],
       m_loc = l1_buffer a + 16388 + word_of_int (db_y d),
       m_size = 8192, m_stride_1 = 4096, m_stride_0 = 256, m_length_2 = 16, m_length_0 = 32,
       m_dir = 0\<rparr>]"
  "requant_copies v (writeback a s d) = []"
  "kernel_calls (writeback a s d) = []"
  by (simp_all add: writeback_def Let_def)

lemma prologue_obs:
  "input_transfers (prologue c a) =
     [\<lparr>m_ext = Plain (l2_x a), m_loc = l1_buffer a, m_size = 8192,
       m_stride_1 = 4096, m_stride_0 = 256, m_length_2 = 16, m_length_0 = 32, m_dir = 1\<rparr>]"
  "weight_transfers (prologue c a) =
     [\<lparr>m_ext = Plain (l2_W a), m_loc = l1_buffer a + 32776, m_size = 288,
       m_stride_1 = 9, m_stride_0 = 1, m_length_2 = 32, m_length_0 = 1, m_dir = 1\<rparr>]"
  "output_writebacks (prologue c a) = []"
  "kernel_calls (prologue c a) = []"
  by (simp_all add: prologue_def)

lemma prologue_copies:
  "requant_copies v (prologue c a) =
     (if c = 0 then
        [\<lparr>copy_dir = PI_CL_DMA_DIR_EXT2LOC, copy_merge = 0, copy_size = 128, copy_id = 0,
          copy_ext = l2_W a + (case v of copy_k \<Rightarrow> 2304 | copy_lambda \<Rightarrow> 3328),
          copy_loc = l1_buffer a + (case v of copy_k \<Rightarrow> 33356 | copy_lambda \<Rightarrow> 33616)\<rparr>]
      else [])"
  by (cases v) (simp_all add: prologue_def)

section \<open>The events of iteration n in closed form\<close>

lemma upt_8: "[0..<8] = [0, 1, 2, 3, 4, 5, 6, 7::nat]"
  by (simp add: upt_rec)

lemma obs_concat:
  "input_transfers (concat ess) = concat (map input_transfers ess)"
  "weight_transfers (concat ess) = concat (map weight_transfers ess)"
  "output_writebacks (concat ess) = concat (map output_writebacks ess)"
  "requant_copies v (concat ess) = concat (map (requant_copies v) ess)"
  "kernel_calls (concat ess) = concat (map kernel_calls ess)"
  by (induction ess) simp_all

lemma iter_input_transfers:
  "input_transfers (iter_events c a n) =
     (if n < 7 then
        [\<lparr>m_ext = dory_get_tile_3d (l2_x a) 0 0 (int n + 1)
            [16, 16, 32, 16, 256, 2, 2, 0, 0, 0, 0, 8],
          m_loc = l1_buffer a + (if even n then 8192 else 0),
          m_size = 8192, m_stride_1 = 4096, m_stride_0 = 256, m_length_2 = 16, m_length_0 = 32,
          m_dir = 1\<rparr>]
      else [])"
  unfolding iter_events_parts
  by (simp add: prefetch_obs compute_obs wait_copies_obs writeback_obs load_at_closed
      offsets_at_closed)

lemma iter_weight_transfers:
  "weight_transfers (iter_events c a n) =
     (if n < 7 then
        [\<lparr>m_ext = dory_get_tile_3d (l2_W a) (int n + 1) 0 0
            [32, 9, 1, 9, 1, 0, 0, 0, 0, 0, 0, 8],
          m_loc = l1_buffer a + 32776 + (if even n then 288 else 0),
          m_size = 288, m_stride_1 = 9, m_stride_0 = 1, m_length_2 = 32, m_length_0 = 1,
          m_dir = 1\<rparr>]
      else [])"
  unfolding iter_events_parts
  by (simp add: prefetch_obs compute_obs wait_copies_obs writeback_obs load_at_closed
      offsets_at_closed weights_changed_def)

lemma iter_output_writebacks:
  "output_writebacks (iter_events c a n) =
     [\<lparr>m_ext = dory_get_tile_3d (l2_y a) 0 0 (int n)
         [16, 16, 32, 16, 256, 0, 0, 0, 0, 0, 0, 8],
       m_loc = l1_buffer a + 16388,
       m_size = 8192, m_stride_1 = 4096, m_stride_0 = 256, m_length_2 = 16, m_length_0 = 32,
       m_dir = 0\<rparr>]"
  unfolding iter_events_parts
  by (simp add: prefetch_obs compute_obs wait_copies_obs writeback_obs load_at_closed
      offsets_at_closed)

lemma iter_kernel_calls:
  "kernel_calls (iter_events c a n) = [kernel_call a (load_at n) (offsets_at n)]"
  unfolding iter_events_parts
  by (simp add: prefetch_obs compute_obs wait_copies_obs writeback_obs)

lemma iter_requant_copies:
  "requant_copies v (iter_events c a n) =
     (if n < 7 \<and> c = 0 then
        [\<lparr>copy_dir = PI_CL_DMA_DIR_EXT2LOC, copy_merge = 0, copy_size = 128, copy_id = 0,
          copy_ext = l2_W a + (case v of copy_k \<Rightarrow> 2304 | copy_lambda \<Rightarrow> 3328) +
            word_of_int (128 * (int n + 1)),
          copy_loc = l1_buffer a + (case v of copy_k \<Rightarrow> 33356 | copy_lambda \<Rightarrow> 33616) +
            (if even n then 128 else 0)\<rparr>]
      else [])"
  unfolding iter_events_parts
  by (simp add: prefetch_copies compute_obs wait_copies_obs writeback_obs load_at_closed
      offsets_at_closed weights_changed_def)

section \<open>The events around the kernel call\<close>

lemma around_kernel:
  assumes "list_all (\<lambda>e. \<not> is_kernel e) es"
  shows "before_kernel (es @ pulp_nn_depthwise_generic k # fs) = es"
    and "after_kernel (es @ pulp_nn_depthwise_generic k # fs) = fs"
  using assms
  by (simp_all add: before_kernel_def after_kernel_def list_all_iff takeWhile_append2
      dropWhile_append2)

lemma prefetch_no_kernel: "list_all (\<lambda>e. \<not> is_kernel e) (prefetch c a iter s d)"
  by (simp add: prefetch_def Let_def)

lemma tile_iter_before_kernel:
  "before_kernel (fst (tile_iter c a iter s)) =
     prefetch c a iter (snd (db_update (advance_load s))) (db_offsets (advance_load s)) @
     [pi_cl_team_barrier]"
proof -
  have "list_all (\<lambda>e. \<not> is_kernel e)
      (prefetch c a iter (snd (db_update (advance_load s))) (db_offsets (advance_load s)) @
       [pi_cl_team_barrier])"
    using prefetch_no_kernel by simp
  from around_kernel(1) [OF this] show ?thesis
    by (simp add: tile_iter_parts compute_def)
qed

lemma tile_iter_after_kernel:
  "after_kernel (fst (tile_iter c a iter s)) =
     pi_cl_team_barrier # wait_copies c iter (snd (db_update (advance_load s))) @
     writeback a (snd (db_update (advance_load s))) (db_offsets (advance_load s)) @
     [pi_cl_team_barrier]"
proof -
  have "list_all (\<lambda>e. \<not> is_kernel e)
      (prefetch c a iter (snd (db_update (advance_load s))) (db_offsets (advance_load s)) @
       [pi_cl_team_barrier])"
    using prefetch_no_kernel by simp
  from around_kernel(2) [OF this] show ?thesis
    by (simp add: tile_iter_parts compute_def)
qed

lemma prefetch_no_wait: "pi_cl_dma_wait v \<notin> set (prefetch c a iter s d)"
  by (simp add: prefetch_def Let_def)

section \<open>The L1 ranges of the events\<close>

lemma local_off_simps [simp]:
  "local_off a (l1_buffer a) = 0"
  "local_off a (l1_buffer a + w) = unat w"
  "local_off a (l1_buffer a + w + w') = unat (w + w')"
  "local_off a (w + l1_buffer a) = unat w"
  by (simp_all add: local_off_def add.assoc)

lemma prologue_ranges: "list_all (ranges_ok a) (prologue c a)"
  by (simp add: prologue_def ranges_ok_def within_def below_def)

lemma prefetch_ranges: "list_all (ranges_ok a) (prefetch c a iter s (db_offsets t))"
  by (simp add: prefetch_def db_offsets_def lnot_def ranges_ok_def within_def below_def Let_def)

lemma compute_ranges: "list_all (ranges_ok a) (compute a s (db_offsets t))"
  by (simp add: compute_def kernel_call_def db_offsets_def lnot_def ranges_ok_def within_def
      below_def Let_def)

lemma wait_copies_ranges: "list_all (ranges_ok a) (wait_copies c iter s)"
  by (simp add: wait_copies_def ranges_ok_def)

lemma writeback_ranges: "list_all (ranges_ok a) (writeback a s (db_offsets t))"
  by (simp add: writeback_def db_offsets_def lnot_def ranges_ok_def within_def below_def Let_def)

lemma tile_iter_ranges: "list_all (ranges_ok a) (fst (tile_iter c a iter s))"
  unfolding tile_iter_parts
  by (simp add: prefetch_ranges compute_ranges wait_copies_ranges writeback_ranges
      ranges_ok_def)

lemma layer_ranges: "list_all (ranges_ok a) (layerConvDWBNRelu9 c a)"
proof -
  have "list_all (ranges_ok a) (iter_events c a n)" for n
    unfolding iter_events_def by (rule tile_iter_ranges)
  then have "list_all (ranges_ok a) (concat (map (iter_events c a) [0..<8]))"
    by (auto simp: list_all_iff)
  with prologue_ranges show ?thesis
    unfolding layer_events by simp
qed

section \<open>The channel-block indices\<close>

lemma chan_inv_steps:
  "chan_inv s \<Longrightarrow> chan_inv (advance_load s)"
  "chan_inv s \<Longrightarrow> chan_inv (snd (db_update s))"
  "chan_inv s \<Longrightarrow> chan_inv (update_prev s)"
  by (simp_all add: chan_inv_def advance_load_def update_prev_def Let_def)

section \<open>The claims\<close>

text \<open>
  C1, as the code has it. On every loop iteration the parity bit of the input role is toggled
  (line 172), so the input slot offsets \<^verbatim>\<open>db_x\<close> and \<^verbatim>\<open>exec_db_x\<close> of iteration \<open>i + 1\<close>
  differ from those of iteration \<open>i\<close>. The parity bit of the output role is never assigned:
  \<^verbatim>\<open>db_state_y\<close> keeps its initial value 1, the output offset \<^verbatim>\<open>db_y\<close> is 0 in every
  iteration, and the kernel and the write-back of every iteration use the one output slot at
  \<^verbatim>\<open>l1_buffer + 16388\<close>.
\<close>

theorem input_parity_toggles_output_parity_fixed:
  "db_state_x (next_sched s) = lnot (db_state_x s) \<and>
   db_state_y (next_sched s) = db_state_y s \<and>
   db_state_x (sched_at (Suc i)) = lnot (db_state_x (sched_at i)) \<and>
   db_x (offsets_at (Suc i)) \<noteq> db_x (offsets_at i) \<and>
   exec_db_x (offsets_at (Suc i)) \<noteq> exec_db_x (offsets_at i) \<and>
   db_state_y (sched_at i) = 1 \<and>
   db_y (offsets_at i) = 0 \<and>
   map k_y (kernel_calls (iter_events c a i)) = [l1_buffer a + 16388] \<and>
   map m_loc (output_writebacks (iter_events c a i)) = [l1_buffer a + 16388]"
proof -
  have "db_state_x (next_sched s) = lnot (db_state_x s)"
    by (simp add: next_sched_def update_prev_def)
  moreover have "db_state_y (next_sched s) = db_state_y s"
    by (simp add: next_sched_def update_prev_def)
  moreover have "db_state_x (sched_at (Suc i)) = lnot (db_state_x (sched_at i))"
    by (simp add: sched_at_closed lnot_def)
  moreover have "db_x (offsets_at (Suc i)) \<noteq> db_x (offsets_at i)"
    by (simp add: offsets_at_closed)
  moreover have "exec_db_x (offsets_at (Suc i)) \<noteq> exec_db_x (offsets_at i)"
    by (simp add: offsets_at_closed)
  moreover have "db_state_y (sched_at i) = 1"
    by (simp add: sched_at_closed)
  moreover have "db_y (offsets_at i) = 0"
    by (simp add: offsets_at_closed)
  moreover have "map k_y (kernel_calls (iter_events c a i)) = [l1_buffer a + 16388]"
    by (simp add: iter_kernel_calls kernel_call_def offsets_at_closed)
  moreover have "map m_loc (output_writebacks (iter_events c a i)) = [l1_buffer a + 16388]"
    by (simp add: iter_output_writebacks)
  ultimately show ?thesis by blast
qed

theorem input_parity_toggles_output_parity_fixed_witness:
  "db_state_x (sched_at 1) = 1 \<and> db_state_x (sched_at 0) = 0 \<and>
   db_x (offsets_at 1) = 0 \<and> db_x (offsets_at 0) = 8192 \<and>
   db_state_y (sched_at 0) = 1 \<and> db_y (offsets_at 0) = 0 \<and>
   map m_loc (output_writebacks (iter_events 0 example_args 0)) =
     [l1_buffer example_args + 16388]"
proof -
  note t = input_parity_toggles_output_parity_fixed [of init_sched 0 0 example_args]
  have "db_state_x (sched_at 1) = 1" "db_state_x (sched_at 0) = 0"
    "db_x (offsets_at 1) = 0" "db_x (offsets_at 0) = 8192"
    by (simp_all add: sched_at_closed offsets_at_closed)
  with t show ?thesis by blast
qed

text \<open>
  C1 as stated fails for the output role: from iteration 0 to iteration 1 the output parity bit
  is not toggled and the output slot offset does not change.
\<close>

theorem output_parity_toggle_counterexample:
  "db_state_y (sched_at 1) \<noteq> lnot (db_state_y (sched_at 0)) \<and>
   db_y (offsets_at 1) = db_y (offsets_at 0)"
  by (simp add: sched_at_closed offsets_at_closed lnot_def)

text \<open>
  C2. The input offset the kernel reads in iteration 0 is the destination of the prologue
  transfer, and the one it reads in iteration \<open>i + 1\<close> is the destination of the input prefetch
  issued in iteration \<open>i\<close> (\<^verbatim>\<open>exec_db_x\<close> then equals the earlier \<^verbatim>\<open>db_x\<close>); within every
  iteration the load offset and the exec offset of the input role differ.
\<close>

theorem exec_input_slot_is_last_loaded:
  assumes "i < 8 - 1"
  shows "map k_x (kernel_calls (iter_events c a 0)) = map m_loc (input_transfers (prologue c a)) \<and>
         length (input_transfers (prologue c a)) = 1 \<and>
         map k_x (kernel_calls (iter_events c a (Suc i))) =
           map m_loc (input_transfers (iter_events c a i)) \<and>
         length (input_transfers (iter_events c a i)) = 1 \<and>
         map m_loc (input_transfers (iter_events c a i)) =
           [l1_buffer a + word_of_int (db_x (offsets_at i))] \<and>
         map k_x (kernel_calls (iter_events c a n)) =
           [l1_buffer a + word_of_int (exec_db_x (offsets_at n))] \<and>
         exec_db_x (offsets_at 0) = 0 \<and>
         exec_db_x (offsets_at (Suc n)) = db_x (offsets_at n) \<and>
         db_x (offsets_at n) \<noteq> exec_db_x (offsets_at n) \<and>
         db_x (db_offsets s) \<noteq> exec_db_x (db_offsets s)"
proof -
  have "map k_x (kernel_calls (iter_events c a 0)) =
      map m_loc (input_transfers (prologue c a))"
    by (simp add: iter_kernel_calls kernel_call_def offsets_at_closed prologue_obs)
  moreover have "length (input_transfers (prologue c a)) = 1"
    by (simp add: prologue_obs)
  moreover have "map k_x (kernel_calls (iter_events c a (Suc i))) =
      map m_loc (input_transfers (iter_events c a i))"
    using assms
    by (simp add: iter_kernel_calls kernel_call_def offsets_at_closed iter_input_transfers)
  moreover have "length (input_transfers (iter_events c a i)) = 1"
    using assms by (simp add: iter_input_transfers)
  moreover have "map m_loc (input_transfers (iter_events c a i)) =
      [l1_buffer a + word_of_int (db_x (offsets_at i))]"
    using assms by (simp add: iter_input_transfers offsets_at_closed)
  moreover have "map k_x (kernel_calls (iter_events c a n)) =
      [l1_buffer a + word_of_int (exec_db_x (offsets_at n))]"
    by (simp add: iter_kernel_calls kernel_call_def)
  moreover have "exec_db_x (offsets_at 0) = 0"
    by (simp add: offsets_at_closed)
  moreover have "exec_db_x (offsets_at (Suc n)) = db_x (offsets_at n)"
    by (simp add: offsets_at_closed)
  moreover have "db_x (offsets_at n) \<noteq> exec_db_x (offsets_at n)"
    by (simp add: offsets_at_closed)
  moreover have "db_x (db_offsets s) \<noteq> exec_db_x (db_offsets s)"
    by (simp add: db_offsets_def lnot_def)
  ultimately show ?thesis by blast
qed

theorem exec_input_slot_is_last_loaded_witness:
  "map k_x (kernel_calls (iter_events 0 example_args 0)) = [l1_buffer example_args] \<and>
   map m_loc (input_transfers (iter_events 0 example_args 2)) =
     [l1_buffer example_args + 8192] \<and>
   map k_x (kernel_calls (iter_events 0 example_args 3)) = [l1_buffer example_args + 8192] \<and>
   exec_db_x (offsets_at 3) = 8192 \<and> db_x (offsets_at 3) = 0"
proof -
  have h: "(2::nat) < 8 - 1" by simp
  note t = exec_input_slot_is_last_loaded [OF h, of 0 example_args 2 init_sched]
  have x0: "map m_loc (input_transfers (prologue 0 example_args)) = [l1_buffer example_args]"
    by (simp add: prologue_obs)
  have d: "db_x (offsets_at 2) = 8192" "db_x (offsets_at 3) = 0"
    by (simp_all add: offsets_at_closed)
  have s: "Suc 2 = 3" by simp
  from t x0 d show ?thesis unfolding s by simp
qed

text \<open>
  C3, as the code has it. Over the whole layer the weight tile and the requantization
  multipliers and shifts are each transferred eight times, once per channel block: block 0 in
  the prologue and blocks 1 to 7 in the loop, the requantization copies by core 0 alone. In the
  loop the transfer is issued exactly when the iteration is not the last one and the input or
  output channel block of the load coordinate differs from that of the exec coordinate.
\<close>

theorem weights_once_per_channel_block:
  "(weight_transfers (fst (tile_iter c a iter s)) \<noteq> [] \<longleftrightarrow>
      iter < 8 - 1 \<and> weights_changed (advance_load s)) \<and>
   (requant_copies v (fst (tile_iter 0 a iter s)) \<noteq> [] \<longleftrightarrow>
      iter < 8 - 1 \<and> weights_changed (advance_load s)) \<and>
   requant_copies v (fst (tile_iter (Suc c) a iter s)) = [] \<and>
   length (weight_transfers (fst (tile_iter c a iter s))) \<le> 1 \<and>
   length (requant_copies v (fst (tile_iter c a iter s))) \<le> 1 \<and>
   map m_ext (weight_transfers (layerConvDWBNRelu9 c a)) =
     Plain (l2_W a) #
     map (\<lambda>n. dory_get_tile_3d (l2_W a) (int n) 0 0 [32, 9, 1, 9, 1, 0, 0, 0, 0, 0, 0, 8])
       [1..<8] \<and>
   map copy_ext (requant_copies v (layerConvDWBNRelu9 0 a)) =
     map (\<lambda>n. l2_W a + (case v of copy_k \<Rightarrow> 2304 | copy_lambda \<Rightarrow> 3328) +
            word_of_int (128 * int n)) [0..<8] \<and>
   requant_copies v (layerConvDWBNRelu9 (Suc c) a) = [] \<and>
   length (weight_transfers (layerConvDWBNRelu9 c a)) = 8 \<and>
   length (requant_copies v (layerConvDWBNRelu9 0 a)) = 8"
proof -
  have a1: "weight_transfers (fst (tile_iter c a iter s)) \<noteq> [] \<longleftrightarrow>
      iter < 8 - 1 \<and> weights_changed (advance_load s)"
    by (simp add: tile_iter_parts prefetch_obs compute_obs wait_copies_obs writeback_obs)
  have a2: "requant_copies v (fst (tile_iter 0 a iter s)) \<noteq> [] \<longleftrightarrow>
      iter < 8 - 1 \<and> weights_changed (advance_load s)"
    by (simp add: tile_iter_parts prefetch_copies compute_obs wait_copies_obs writeback_obs)
  have a3: "requant_copies v (fst (tile_iter (Suc c) a iter s)) = []"
    by (simp add: tile_iter_parts prefetch_copies compute_obs wait_copies_obs writeback_obs)
  have a4: "length (weight_transfers (fst (tile_iter c a iter s))) \<le> 1"
    by (simp add: tile_iter_parts prefetch_obs compute_obs wait_copies_obs writeback_obs)
  have a5: "length (requant_copies v (fst (tile_iter c a iter s))) \<le> 1"
    by (simp add: tile_iter_parts prefetch_copies compute_obs wait_copies_obs writeback_obs)
  have u: "[1..<8] = [1, 2, 3, 4, 5, 6, 7::nat]"
    by (simp add: upt_rec)
  have b1: "map m_ext (weight_transfers (layerConvDWBNRelu9 c a)) =
     Plain (l2_W a) #
     map (\<lambda>n. dory_get_tile_3d (l2_W a) (int n) 0 0 [32, 9, 1, 9, 1, 0, 0, 0, 0, 0, 0, 8])
       [1..<8]"
    unfolding layer_events u upt_8
    by (simp add: obs_concat prologue_obs iter_weight_transfers)
  have b2: "map copy_ext (requant_copies v (layerConvDWBNRelu9 0 a)) =
     map (\<lambda>n. l2_W a + (case v of copy_k \<Rightarrow> 2304 | copy_lambda \<Rightarrow> 3328) +
            word_of_int (128 * int n)) [0..<8]"
    unfolding layer_events upt_8
    by (simp add: obs_concat prologue_copies iter_requant_copies)
  have b3: "requant_copies v (layerConvDWBNRelu9 (Suc c) a) = []"
    unfolding layer_events upt_8
    by (simp add: obs_concat prologue_copies iter_requant_copies)
  have b4: "length (weight_transfers (layerConvDWBNRelu9 c a)) = 8"
    using arg_cong [OF b1, of length] unfolding u by simp
  have b5: "length (requant_copies v (layerConvDWBNRelu9 0 a)) = 8"
    using arg_cong [OF b2, of length] by simp
  from a1 a2 a3 a4 a5 b1 b2 b3 b4 b5 show ?thesis by blast
qed

theorem weights_once_per_channel_block_witness:
  "weights_changed (advance_load init_sched) \<and>
   weight_transfers (fst (tile_iter 0 example_args 6 init_sched)) \<noteq> [] \<and>
   requant_copies copy_k (fst (tile_iter 0 example_args 6 init_sched)) \<noteq> [] \<and>
   length (weight_transfers (layerConvDWBNRelu9 0 example_args)) = 8 \<and>
   length (requant_copies copy_k (layerConvDWBNRelu9 0 example_args)) = 8"
proof -
  have h: "weights_changed (advance_load init_sched)" "(6::int) < 8 - 1"
    by (simp_all add: weights_changed_def advance_load_def init_sched_def)
  from h weights_once_per_channel_block [of 0 example_args 6 init_sched copy_k]
  show ?thesis by blast
qed

text \<open>
  C3 as stated fails in the last iteration: the channel block of the load coordinate (8) differs
  from that of the exec coordinate (7), and no weight or requantization transfer is issued.
\<close>

theorem reload_in_last_iteration_counterexample:
  "weights_changed (load_at 7) \<and>
   i_nof_load (load_at 7) = 8 \<and> i_nof_exec (load_at 7) = 7 \<and>
   weight_transfers (iter_events 0 example_args 7) = [] \<and>
   requant_copies copy_k (iter_events 0 example_args 7) = [] \<and>
   requant_copies copy_lambda (iter_events 0 example_args 7) = []"
  by (simp add: weights_changed_def load_at_closed iter_weight_transfers iter_requant_copies)

text \<open>
  C4. For the grid of N = 8 tiles, exactly N - 1 input-tile prefetches are issued inside the
  tile loop: every iteration but the last issues exactly one call of
  \<^verbatim>\<open>dory_dma_memcpy_3d_custom_hwc_to_chw\<close>, and the last iteration issues none.
\<close>

theorem input_prefetch_count:
  assumes "i < 8"
  shows "length (input_transfers (iter_events c a i)) = (if i < 8 - 1 then 1 else 0) \<and>
         fst (tile_loop c a 0 init_sched) ! i = iter_events c a i \<and>
         length (fst (tile_loop c a 0 init_sched)) = 8 \<and>
         length (input_transfers (concat (fst (tile_loop c a 0 init_sched)))) = 8 - 1"
proof -
  have "length (input_transfers (iter_events c a i)) = (if i < 8 - 1 then 1 else 0)"
    by (simp add: iter_input_transfers)
  moreover have "fst (tile_loop c a 0 init_sched) ! i = iter_events c a i"
    using assms unfolding tile_loop_events by (simp del: upt_Suc)
  moreover have "length (fst (tile_loop c a 0 init_sched)) = 8"
    unfolding tile_loop_events by simp
  moreover have "length (input_transfers (concat (fst (tile_loop c a 0 init_sched)))) = 8 - 1"
    unfolding tile_loop_events obs_concat upt_8
    by (simp add: iter_input_transfers)
  ultimately show ?thesis by blast
qed

theorem input_prefetch_count_witness:
  "length (input_transfers (iter_events 0 example_args 7)) = 0 \<and>
   length (input_transfers (iter_events 0 example_args 6)) = 1 \<and>
   length (input_transfers (concat (fst (tile_loop 0 example_args 0 init_sched)))) = 7"
  using input_prefetch_count [of 7 0 example_args] input_prefetch_count [of 6 0 example_args]
  by simp

text \<open>
  C5. The four padding flags passed to the kernel are those computed from the exec tile of the
  iteration: top is 1 exactly when the exec height index is 0, bottom exactly when it is the
  last height block (index \<open>1 - 1\<close>), left exactly when the exec width index is 0, right exactly
  when it is the last width block (index \<open>1 - 1\<close>), and 0 otherwise. Both spatial grids have size
  1, so all four flags are 1 in the kernel call of every iteration.
\<close>

theorem padding_flags:
  assumes "i < 8"
  shows "(p_t s = 1 \<longleftrightarrow> i_h_exec s = 0) \<and> (p_b s = 1 \<longleftrightarrow> i_h_exec s = 1 - 1) \<and>
         (p_l s = 1 \<longleftrightarrow> i_w_exec s = 0) \<and> (p_r s = 1 \<longleftrightarrow> i_w_exec s = 1 - 1) \<and>
         p_t s \<in> {0, 1} \<and> p_b s \<in> {0, 1} \<and> p_l s \<in> {0, 1} \<and> p_r s \<in> {0, 1} \<and>
         map (\<lambda>k. (k_p_t k, k_p_b k, k_p_l k, k_p_r k)) (kernel_calls (fst (tile_iter c a iter s))) =
           [(p_t s, p_b s, p_l s, p_r s)] \<and>
         map (\<lambda>k. (k_p_t k, k_p_b k, k_p_l k, k_p_r k)) (kernel_calls (iter_events c a i)) =
           [(1, 1, 1, 1)]"
proof -
  have flags: "(p_t s = 1 \<longleftrightarrow> i_h_exec s = 0) \<and> (p_b s = 1 \<longleftrightarrow> i_h_exec s = 1 - 1) \<and>
         (p_l s = 1 \<longleftrightarrow> i_w_exec s = 0) \<and> (p_r s = 1 \<longleftrightarrow> i_w_exec s = 1 - 1) \<and>
         p_t s \<in> {0, 1} \<and> p_b s \<in> {0, 1} \<and> p_l s \<in> {0, 1} \<and> p_r s \<in> {0, 1}"
    by (simp add: p_t_def p_b_def p_l_def p_r_def)
  have call: "map (\<lambda>k. (k_p_t k, k_p_b k, k_p_l k, k_p_r k))
        (kernel_calls (fst (tile_iter c a iter s))) = [(p_t s, p_b s, p_l s, p_r s)]"
    unfolding tile_iter_parts
    by (simp add: prefetch_obs compute_obs wait_copies_obs writeback_obs kernel_call_def
        p_t_def p_b_def p_l_def p_r_def)
  have run: "map (\<lambda>k. (k_p_t k, k_p_b k, k_p_l k, k_p_r k)) (kernel_calls (iter_events c a i)) =
      [(1, 1, 1, 1)]"
    by (simp add: iter_kernel_calls kernel_call_def load_at_closed p_t_def p_b_def p_l_def
        p_r_def)
  from flags call run show ?thesis by blast
qed

theorem padding_flags_witness:
  "p_t init_sched = 1 \<and> p_b init_sched = 1 \<and> p_l init_sched = 1 \<and> p_r init_sched = 1 \<and>
   map (\<lambda>k. (k_p_t k, k_p_b k, k_p_l k, k_p_r k)) (kernel_calls (iter_events 0 example_args 5)) =
     [(1, 1, 1, 1)]"
  using padding_flags [of 5 init_sched 0 example_args 0]
  by (simp add: init_sched_def)

text \<open>
  C6. Exactly N = 8 output tiles are written back, one in each iteration of the loop and none in
  the prologue. Each write-back is addressed by the exec tile coordinate of its iteration, and
  the eight exec coordinates are the eight tiles \<open>(0, 0, 0)\<close> to \<open>(0, 0, 7)\<close> of the grid, each
  once: no tile is repeated and none is skipped.
\<close>

theorem output_writeback_once_per_tile:
  assumes "i < 8"
  shows "map m_ext (output_writebacks (iter_events c a i)) =
           [case exec_coord (load_at i) of
              (w, h, nof) \<Rightarrow>
                dory_get_tile_3d (l2_y a) h w nof [16, 16, 32, 16, 256, 0, 0, 0, 0, 0, 0, 8]] \<and>
         length (output_writebacks (layerConvDWBNRelu9 c a)) = 8 \<and>
         output_writebacks (layerConvDWBNRelu9 c a) =
           concat (map (\<lambda>n. output_writebacks (iter_events c a n)) [0..<8]) \<and>
         map (\<lambda>n. exec_coord (load_at n)) [0..<8] = map (\<lambda>n. (0, 0, int n)) [0..<8] \<and>
         distinct (map (\<lambda>n. exec_coord (load_at n)) [0..<8])"
proof -
  have coord: "exec_coord (load_at n) = (0, 0, int n)" for n
    by (simp add: exec_coord_def load_at_closed)
  have one: "map m_ext (output_writebacks (iter_events c a i)) =
      [case exec_coord (load_at i) of
         (w, h, nof) \<Rightarrow>
           dory_get_tile_3d (l2_y a) h w nof [16, 16, 32, 16, 256, 0, 0, 0, 0, 0, 0, 8]]"
    by (simp add: iter_output_writebacks coord)
  have all: "output_writebacks (layerConvDWBNRelu9 c a) =
      concat (map (\<lambda>n. output_writebacks (iter_events c a n)) [0..<8])"
    unfolding layer_events by (simp add: obs_concat prologue_obs comp_def del: upt_Suc)
  have len: "length (output_writebacks (layerConvDWBNRelu9 c a)) = 8"
    unfolding all upt_8 by (simp add: iter_output_writebacks)
  have dist: "distinct (map (\<lambda>n. exec_coord (load_at n)) [0..<8])"
    unfolding upt_8 by (simp add: coord)
  show ?thesis
    using one all len dist by (simp add: coord del: upt_Suc)
qed

theorem output_writeback_once_per_tile_witness:
  "map m_ext (output_writebacks (iter_events 0 example_args 3)) =
     [dory_get_tile_3d (l2_y example_args) 0 0 3 [16, 16, 32, 16, 256, 0, 0, 0, 0, 0, 0, 8]] \<and>
   length (output_writebacks (layerConvDWBNRelu9 0 example_args)) = 8 \<and>
   distinct (map (\<lambda>n. exec_coord (load_at n)) [0..<8])"
proof -
  have h: "(3::nat) < 8" by simp
  note t = output_writeback_once_per_tile [OF h, of 0 example_args]
  have "map m_ext (output_writebacks (iter_events 0 example_args 3)) =
     [dory_get_tile_3d (l2_y example_args) 0 0 3 [16, 16, 32, 16, 256, 0, 0, 0, 0, 0, 0, 8]]"
    using t [THEN conjunct1] by (simp add: exec_coord_def load_at_closed)
  with t show ?thesis by blast
qed

text \<open>
  C7. At the start of an iteration the load coordinate moves one step in the nested order with
  the width index innermost: from a coordinate inside the 1 x 1 spatial grid, the width and
  height indices stay inside the grid and the linear index
  \<open>(nof * 1 + h) * 1 + w\<close> grows by exactly one, the input channel index moving with the output
  one. At the end of the iteration the exec coordinate is the load coordinate. In the run, the
  load coordinate of iteration \<open>n\<close> is \<open>(0, 0, n + 1)\<close>, it addresses the prefetch of that
  iteration, and it is the exec coordinate of iteration \<open>n + 1\<close>.
\<close>

theorem load_steps_exec_follows:
  assumes "0 \<le> i_w_load s" "i_w_load s < 1" "0 \<le> i_h_load s" "i_h_load s < 1" "i < 8 - 1"
  shows "0 \<le> i_w_load (advance_load s) \<and> i_w_load (advance_load s) < 1 \<and>
         0 \<le> i_h_load (advance_load s) \<and> i_h_load (advance_load s) < 1 \<and>
         (i_nof_load (advance_load s) * 1 + i_h_load (advance_load s)) * 1 +
           i_w_load (advance_load s) = (i_nof_load s * 1 + i_h_load s) * 1 + i_w_load s + 1 \<and>
         i_nif_load (advance_load s) - i_nif_load s = i_nof_load (advance_load s) - i_nof_load s \<and>
         exec_coord (snd (tile_iter c a iter s)) = load_coord (advance_load s) \<and>
         i_nif_exec (snd (tile_iter c a iter s)) = i_nif_load (advance_load s) \<and>
         load_coord (snd (tile_iter c a iter s)) = load_coord (advance_load s) \<and>
         load_coord (sched_at n) = (0, 0, int n) \<and>
         load_coord (load_at n) = (0, 0, int n + 1) \<and>
         exec_coord (load_at (Suc n)) = load_coord (load_at n) \<and>
         map m_ext (input_transfers (iter_events c a i)) =
           [case exec_coord (load_at (Suc i)) of
              (w, h, nof) \<Rightarrow>
                dory_get_tile_3d (l2_x a) h w nof [16, 16, 32, 16, 256, 2, 2, 0, 0, 0, 0, 8]]"
proof -
  from assms have wh: "i_w_load s = 0" "i_h_load s = 0" by simp_all
  have adv: "advance_load s =
      s\<lparr>i_nif_load := i_nif_load s + 1, i_nof_load := i_nof_load s + 1\<rparr>"
    by (simp add: advance_load_def wh)
  have "0 \<le> i_w_load (advance_load s) \<and> i_w_load (advance_load s) < 1 \<and>
         0 \<le> i_h_load (advance_load s) \<and> i_h_load (advance_load s) < 1 \<and>
         (i_nof_load (advance_load s) * 1 + i_h_load (advance_load s)) * 1 +
           i_w_load (advance_load s) = (i_nof_load s * 1 + i_h_load s) * 1 + i_w_load s + 1 \<and>
         i_nif_load (advance_load s) - i_nif_load s = i_nof_load (advance_load s) - i_nof_load s"
    unfolding adv by (simp add: wh)
  moreover have "exec_coord (snd (tile_iter c a iter s)) = load_coord (advance_load s)"
    by (simp add: tile_iter_snd next_sched_def update_prev_def exec_coord_def load_coord_def)
  moreover have "i_nif_exec (snd (tile_iter c a iter s)) = i_nif_load (advance_load s)"
    by (simp add: tile_iter_snd next_sched_def update_prev_def)
  moreover have "load_coord (snd (tile_iter c a iter s)) = load_coord (advance_load s)"
    by (simp add: tile_iter_snd next_sched_def update_prev_def load_coord_def)
  moreover have "load_coord (sched_at n) = (0, 0, int n)"
    by (simp add: load_coord_def sched_at_closed)
  moreover have "load_coord (load_at n) = (0, 0, int n + 1)"
    by (simp add: load_coord_def load_at_closed)
  moreover have "exec_coord (load_at (Suc n)) = load_coord (load_at n)"
    by (simp add: load_coord_def exec_coord_def load_at_closed)
  moreover have "map m_ext (input_transfers (iter_events c a i)) =
      [case exec_coord (load_at (Suc i)) of
         (w, h, nof) \<Rightarrow>
           dory_get_tile_3d (l2_x a) h w nof [16, 16, 32, 16, 256, 2, 2, 0, 0, 0, 0, 8]]"
    using assms(5) by (simp add: iter_input_transfers exec_coord_def load_at_closed)
  ultimately show ?thesis by blast
qed

theorem load_steps_exec_follows_witness:
  "load_coord init_sched = (0, 0, 0) \<and>
   load_coord (advance_load init_sched) = (0, 0, 1) \<and>
   exec_coord (snd (tile_iter 0 example_args 0 init_sched)) = (0, 0, 1) \<and>
   load_coord (load_at 5) = (0, 0, 6) \<and> exec_coord (load_at 6) = (0, 0, 6) \<and>
   map m_ext (input_transfers (iter_events 0 example_args 5)) =
     [dory_get_tile_3d (l2_x example_args) 0 0 6 [16, 16, 32, 16, 256, 2, 2, 0, 0, 0, 0, 8]]"
proof -
  have h: "0 \<le> i_w_load init_sched" "i_w_load init_sched < 1"
    "0 \<le> i_h_load init_sched" "i_h_load init_sched < 1" "(5::nat) < 8 - 1"
    by (simp_all add: init_sched_def)
  note t = load_steps_exec_follows [OF h, of 0 example_args 0 5]
  have v: "load_coord init_sched = (0, 0, 0)" "load_coord (advance_load init_sched) = (0, 0, 1)"
    by (simp_all add: load_coord_def init_sched_def advance_load_def)
  have s: "Suc 5 = 6" by simp
  from t v show ?thesis unfolding s by simp
qed

text \<open>
  C8, as the code has it. In an iteration that issues the requantization copies (one that is not
  the last and whose load channel block differs from the exec one), core 0 issues them before
  the kernel call and waits for neither before it; the two waits come right after the kernel
  call and the barrier that follows it, before the write-back and the closing barrier of the
  iteration. The copies go to the slot the kernel of this iteration does not read, and the
  kernel of the next iteration is the one that reads it.
\<close>

theorem requant_wait_follows_kernel:
  assumes "iter < 8 - 1" "weights_changed (advance_load s)" "i < 8 - 1"
  shows "length (requant_copies v (before_kernel (fst (tile_iter 0 a iter s)))) = 1 \<and>
         pi_cl_dma_wait v \<notin> set (before_kernel (fst (tile_iter 0 a iter s))) \<and>
         take 3 (after_kernel (fst (tile_iter 0 a iter s))) =
           [pi_cl_team_barrier, pi_cl_dma_wait copy_k, pi_cl_dma_wait copy_lambda] \<and>
         after_kernel (fst (tile_iter 0 a iter s)) =
           [pi_cl_team_barrier, pi_cl_dma_wait copy_k, pi_cl_dma_wait copy_lambda] @
           writeback a (snd (db_update (advance_load s))) (db_offsets (advance_load s)) @
           [pi_cl_team_barrier] \<and>
         length (requant_copies v (before_kernel (iter_events 0 a i))) = 1 \<and>
         pi_cl_dma_wait v \<notin> set (before_kernel (iter_events 0 a i)) \<and>
         take 3 (after_kernel (iter_events 0 a i)) =
           [pi_cl_team_barrier, pi_cl_dma_wait copy_k, pi_cl_dma_wait copy_lambda] \<and>
         map copy_loc (requant_copies copy_k (iter_events 0 a i)) =
           map k_k (kernel_calls (iter_events 0 a (Suc i))) \<and>
         map copy_loc (requant_copies copy_lambda (iter_events 0 a i)) =
           map k_lambda (kernel_calls (iter_events 0 a (Suc i))) \<and>
         map copy_loc (requant_copies copy_k (iter_events 0 a i)) \<noteq>
           map k_k (kernel_calls (iter_events 0 a i)) \<and>
         map copy_loc (requant_copies copy_lambda (iter_events 0 a i)) \<noteq>
           map k_lambda (kernel_calls (iter_events 0 a i))"
proof -
  have wc: "weights_changed (load_at i)"
    by (simp add: weights_changed_def load_at_closed)
  have ii: "int i < 7" using assms(3) by simp
  have a1: "length (requant_copies v (before_kernel (fst (tile_iter 0 a iter s)))) = 1"
    using assms(1,2) by (simp add: tile_iter_before_kernel prefetch_copies)
  have a2: "pi_cl_dma_wait v \<notin> set (before_kernel (fst (tile_iter 0 a iter s)))"
    by (simp add: tile_iter_before_kernel prefetch_no_wait)
  have a4: "after_kernel (fst (tile_iter 0 a iter s)) =
           [pi_cl_team_barrier, pi_cl_dma_wait copy_k, pi_cl_dma_wait copy_lambda] @
           writeback a (snd (db_update (advance_load s))) (db_offsets (advance_load s)) @
           [pi_cl_team_barrier]"
    using assms(1,2) by (simp add: tile_iter_after_kernel wait_copies_def)
  have a3: "take 3 (after_kernel (fst (tile_iter 0 a iter s))) =
           [pi_cl_team_barrier, pi_cl_dma_wait copy_k, pi_cl_dma_wait copy_lambda]"
    unfolding a4 by simp
  have b1: "length (requant_copies v (before_kernel (iter_events 0 a i))) = 1"
    unfolding iter_events_def using ii wc
    by (simp add: tile_iter_before_kernel prefetch_copies load_at_def)
  have b2: "pi_cl_dma_wait v \<notin> set (before_kernel (iter_events 0 a i))"
    unfolding iter_events_def by (simp add: tile_iter_before_kernel prefetch_no_wait)
  have b3: "take 3 (after_kernel (iter_events 0 a i)) =
           [pi_cl_team_barrier, pi_cl_dma_wait copy_k, pi_cl_dma_wait copy_lambda]"
    unfolding iter_events_def using ii wc
    by (simp add: tile_iter_after_kernel wait_copies_def load_at_def)
  have c1: "map copy_loc (requant_copies copy_k (iter_events 0 a i)) =
           map k_k (kernel_calls (iter_events 0 a (Suc i)))"
    using assms(3)
    by (simp add: iter_requant_copies iter_kernel_calls kernel_call_def offsets_at_closed)
  have c2: "map copy_loc (requant_copies copy_lambda (iter_events 0 a i)) =
           map k_lambda (kernel_calls (iter_events 0 a (Suc i)))"
    using assms(3)
    by (simp add: iter_requant_copies iter_kernel_calls kernel_call_def offsets_at_closed)
  have c3: "map copy_loc (requant_copies copy_k (iter_events 0 a i)) \<noteq>
           map k_k (kernel_calls (iter_events 0 a i))"
    using assms(3)
    by (simp add: iter_requant_copies iter_kernel_calls kernel_call_def offsets_at_closed)
  have c4: "map copy_loc (requant_copies copy_lambda (iter_events 0 a i)) \<noteq>
           map k_lambda (kernel_calls (iter_events 0 a i))"
    using assms(3)
    by (simp add: iter_requant_copies iter_kernel_calls kernel_call_def offsets_at_closed)
  from a1 a2 a3 a4 b1 b2 b3 c1 c2 c3 c4 show ?thesis by blast
qed


theorem requant_wait_follows_kernel_witness:
  "weights_changed (advance_load init_sched) \<and>
   length (requant_copies copy_k (before_kernel (fst (tile_iter 0 example_args 0 init_sched)))) = 1 \<and>
   pi_cl_dma_wait copy_k \<notin> set (before_kernel (fst (tile_iter 0 example_args 0 init_sched))) \<and>
   take 3 (after_kernel (fst (tile_iter 0 example_args 0 init_sched))) =
     [pi_cl_team_barrier, pi_cl_dma_wait copy_k, pi_cl_dma_wait copy_lambda] \<and>
   map copy_loc (requant_copies copy_k (iter_events 0 example_args 0)) =
     map k_k (kernel_calls (iter_events 0 example_args (Suc 0)))"
proof -
  have h: "(0::int) < 8 - 1" "weights_changed (advance_load init_sched)" "(0::nat) < 8 - 1"
    by (simp_all add: weights_changed_def advance_load_def init_sched_def)
  from h(2) requant_wait_follows_kernel [OF h, of copy_k example_args]
  show ?thesis by blast
qed

text \<open>
  C8 as stated fails: in iteration 0 core 0 issues the copy of the multipliers before the kernel
  call, and neither wait precedes that kernel call; the wait comes after it.
\<close>

theorem requant_wait_before_kernel_counterexample:
  "requant_copies copy_k (before_kernel (iter_events 0 example_args 0)) \<noteq> [] \<and>
   pi_cl_dma_wait copy_k \<notin> set (before_kernel (iter_events 0 example_args 0)) \<and>
   pi_cl_dma_wait copy_lambda \<notin> set (before_kernel (iter_events 0 example_args 0)) \<and>
   pi_cl_dma_wait copy_k \<in> set (after_kernel (iter_events 0 example_args 0))"
proof -
  have wc: "weights_changed (load_at 0)"
    by (simp add: weights_changed_def load_at_closed)
  have "requant_copies copy_k (before_kernel (iter_events 0 example_args 0)) \<noteq> []"
    unfolding iter_events_def using wc
    by (simp add: tile_iter_before_kernel prefetch_copies load_at_def)
  moreover have "pi_cl_dma_wait v \<notin> set (before_kernel (iter_events 0 example_args 0))" for v
    unfolding iter_events_def by (simp add: tile_iter_before_kernel prefetch_no_wait)
  moreover have "pi_cl_dma_wait copy_k \<in> set (after_kernel (iter_events 0 example_args 0))"
    unfolding iter_events_def using wc
    by (simp add: tile_iter_after_kernel wait_copies_def load_at_def)
  ultimately show ?thesis by blast
qed

text \<open>
  C9. The regions of the L1 buffer (input \<open>[0, 16384)\<close>, output from 16388, weights
  \<open>[32776, 33352)\<close>, multipliers \<open>[33356, 33612)\<close>, shifts \<open>[33616, 33872)\<close>, im2col
  \<open>[33896, 34352)\<close> and the second workspace from 34352) are pairwise disjoint: no byte offset
  lies in two of them. Every L1 range named by an event of the layer, on any core and for any
  buffer address, lies within the region of its role: the local side of every transfer with its
  size, and every pointer handed to the kernel with the extent of its tile. The same holds for
  one iteration started in any scheduler state.
\<close>

theorem scratch_regions_respected:
  assumes "r \<noteq> r'"
  shows "\<not> (within r n 1 \<and> within r' n 1) \<and>
         list_all (ranges_ok a) (layerConvDWBNRelu9 c a) \<and>
         list_all (ranges_ok a) (fst (tile_iter c a iter s))"
proof -
  have "\<not> (within r n 1 \<and> within r' n 1)"
    using assms by (cases r; cases r') (simp_all add: within_def below_def)
  with layer_ranges tile_iter_ranges show ?thesis by blast
qed

theorem scratch_regions_respected_witness:
  "within Input 16383 1 \<and> \<not> within Output 16383 1 \<and>
   list_all (ranges_ok example_args) (layerConvDWBNRelu9 0 example_args) \<and>
   local_ranges example_args (hd (prologue 0 example_args)) = [(Mult, 33356, 128)] \<and>
   ranges_ok example_args (hd (prologue 0 example_args))"
proof -
  have h: "Input \<noteq> Output" by simp
  note t = scratch_regions_respected [OF h, of 16383 example_args 0 0 init_sched]
  have i: "within Input 16383 1"
    by (simp add: within_def below_def)
  have p: "local_ranges example_args (hd (prologue 0 example_args)) = [(Mult, 33356, 128)]"
    by (simp add: prologue_def)
  have q: "ranges_ok example_args (hd (prologue 0 example_args))"
    unfolding ranges_ok_def p by (simp add: within_def below_def)
  from t i p q show ?thesis by blast
qed

text \<open>
  C10. The input-channel-block index equals the output-channel-block index, for the load and for
  the exec coordinate: this holds initially, each of the three updates of an iteration keeps it,
  so it holds at the head of every iteration, after the load coordinate has advanced and where
  the transfers and the kernel call are made. Where it holds, the weight-reload condition is
  equivalent to \<^verbatim>\<open>_i_nof_load != _i_nof_exec\<close> alone.
\<close>

theorem channel_indices_agree:
  assumes "chan_inv s"
  shows "chan_inv init_sched \<and>
         chan_inv (advance_load s) \<and> chan_inv (snd (db_update s)) \<and> chan_inv (update_prev s) \<and>
         chan_inv (next_sched s) \<and>
         (weights_changed s \<longleftrightarrow> i_nof_load s \<noteq> i_nof_exec s) \<and>
         chan_inv (sched_at n) \<and> chan_inv (advance_load (sched_at n)) \<and> chan_inv (load_at n) \<and>
         (weights_changed (advance_load (sched_at n)) \<longleftrightarrow>
            i_nof_load (advance_load (sched_at n)) \<noteq> i_nof_exec (advance_load (sched_at n))) \<and>
         (weights_changed (load_at n) \<longleftrightarrow> i_nof_load (load_at n) \<noteq> i_nof_exec (load_at n))"
proof -
  have init: "chan_inv init_sched"
    by (simp add: chan_inv_def init_sched_def)
  have nxt: "chan_inv (next_sched t)" if "chan_inv t" for t
    unfolding next_sched_def using that by (intro chan_inv_steps)
  have cond: "weights_changed t \<longleftrightarrow> i_nof_load t \<noteq> i_nof_exec t" if "chan_inv t" for t
    using that by (auto simp: chan_inv_def weights_changed_def)
  have at: "chan_inv (sched_at m)" for m
  proof (induction m)
    case 0
    show ?case using init by (simp add: sched_at_def)
  next
    case (Suc m)
    then show ?case unfolding sched_at_Suc by (rule nxt)
  qed
  have adv: "chan_inv (advance_load (sched_at n))"
    by (rule chan_inv_steps) (rule at)
  have load: "chan_inv (load_at n)"
    unfolding load_at_def by (rule chan_inv_steps) (rule adv)
  show ?thesis
    using init chan_inv_steps [OF assms] nxt [OF assms] cond [OF assms] at [of n] adv load
      cond [OF adv] cond [OF load]
    by blast
qed

theorem channel_indices_agree_witness:
  "chan_inv init_sched \<and> chan_inv (next_sched init_sched) \<and> chan_inv (load_at 4) \<and>
   i_nif_load (load_at 4) = 5 \<and> i_nof_load (load_at 4) = 5 \<and>
   i_nif_exec (load_at 4) = 4 \<and> i_nof_exec (load_at 4) = 4 \<and>
   weights_changed (load_at 4)"
proof -
  have h: "chan_inv init_sched"
    by (simp add: chan_inv_def init_sched_def)
  note t = channel_indices_agree [OF h, of 4]
  have v: "i_nif_load (load_at 4) = 5" "i_nof_load (load_at 4) = 5"
    "i_nif_exec (load_at 4) = 4" "i_nof_exec (load_at 4) = 4"
    by (simp_all add: load_at_closed)
  from t v show ?thesis by simp
qed

end
